theory Spec2Isabelle
  imports Complex_Main
begin

section \<open>Crop timeline: the status of a lifecycle stage\<close>

text \<open>
  Source: \<^verbatim>\<open>frontend/src/pages/CropTimeline.tsx\<close>, lines 38-46 (\<^verbatim>\<open>getStageStatus\<close>) and
  lines 48-77 (the \<^verbatim>\<open>stages\<close> array the page renders).

  JavaScript strings are modelled as \<^typ>\<open>string\<close>. \<^verbatim>\<open>String.prototype.toLowerCase\<close>
  is modelled on the ASCII letters: \<^verbatim>\<open>A\<close>..\<^verbatim>\<open>Z\<close> go to \<^verbatim>\<open>a\<close>..\<^verbatim>\<open>z\<close>, every
  other character stays as it is.
\<close>

definition upper_letters :: string where
  "upper_letters = ''ABCDEFGHIJKLMNOPQRSTUVWXYZ''"

definition lower_letters :: string where
  "lower_letters = ''abcdefghijklmnopqrstuvwxyz''"

definition lower_char :: "char \<Rightarrow> char" where
  "lower_char c = (case map_of (zip upper_letters lower_letters) c of
                     Some d \<Rightarrow> d
                   | None \<Rightarrow> c)"

definition toLowerCase :: "string \<Rightarrow> string" where
  "toLowerCase s = map lower_char s"

text \<open>
  \<^verbatim>\<open>Array.prototype.indexOf\<close>: the first index holding the element, \<open>-1\<close> when no
  index does.
\<close>

fun indexOf_from :: "int \<Rightarrow> 'a list \<Rightarrow> 'a \<Rightarrow> int" where
  "indexOf_from i [] x = -1"
| "indexOf_from i (y # ys) x = (if y = x then i else indexOf_from (i + 1) ys x)"

definition indexOf :: "'a list \<Rightarrow> 'a \<Rightarrow> int" where
  "indexOf xs x = indexOf_from 0 xs x"

definition stageOrder :: "string list" where
  "stageOrder = [''germination'', ''vegetative'', ''flowering'', ''maturity'', ''harvest'']"

definition getStageStatus :: "string \<Rightarrow> string \<Rightarrow> string" where
  "getStageStatus stageName currentStage =
     (let currentIndex = indexOf stageOrder (toLowerCase currentStage);
          stageIndex = indexOf stageOrder (toLowerCase stageName)
      in if stageIndex < currentIndex then ''completed''
         else if stageIndex = currentIndex then ''current''
         else ''upcoming'')"

text \<open>
  The \<^verbatim>\<open>status\<close> fields of the four rows of the \<^verbatim>\<open>stages\<close> array, in order
  (sowing, vegetative, flowering, harvest). \<^verbatim>\<open>cropData\<close> is \<^verbatim>\<open>null\<close> (here \<open>None\<close>)
  until a crop has been fetched; of the fetched crop only its \<^verbatim>\<open>stage\<close> field is
  read for the status.
\<close>

definition stage_statuses :: "string option \<Rightarrow> string list" where
  "stage_statuses cropData_stage =
     [''completed'',
      (case cropData_stage of Some st \<Rightarrow> getStageStatus ''vegetative'' st | None \<Rightarrow> ''upcoming''),
      (case cropData_stage of Some st \<Rightarrow> getStageStatus ''flowering'' st | None \<Rightarrow> ''upcoming''),
      (case cropData_stage of Some st \<Rightarrow> getStageStatus ''harvest'' st | None \<Rightarrow> ''upcoming'')]"

section \<open>Chat page: the request that carries a chat message\<close>

text \<open>
  Source: \<^verbatim>\<open>frontend/src/services/api.ts\<close>, lines 35-50 (the axios instance and its
  request interceptor) and lines 105-112 (\<^verbatim>\<open>chatService.sendMessage\<close>);
  \<^verbatim>\<open>frontend/src/pages/ChatAssistant.tsx\<close>, lines 32-80 (\<^verbatim>\<open>initializeChat\<close>) and
  lines 171-217 (\<^verbatim>\<open>handleSend\<close>).

  The JavaScript values that reach \<^verbatim>\<open>sendMessage\<close>: \<^verbatim>\<open>undefined\<close>, \<^verbatim>\<open>null\<close>,
  \<^verbatim>\<open>NaN\<close>, a number, a string.
\<close>

datatype jsval = JUndefined | JNull | JNaN | JNumber int | JString string

datatype json = JsonNull | JsonNumber int | JsonString string

text \<open>
  \<^verbatim>\<open>JSON.stringify\<close>, which axios applies to the object handed to \<^verbatim>\<open>api.post\<close>:
  a property whose value is \<^verbatim>\<open>undefined\<close> is left out, \<^verbatim>\<open>NaN\<close> is written
  \<^verbatim>\<open>null\<close>.
\<close>

fun json_value :: "jsval \<Rightarrow> json option" where
  "json_value JUndefined = None"
| "json_value JNull = Some JsonNull"
| "json_value JNaN = Some JsonNull"
| "json_value (JNumber n) = Some (JsonNumber n)"
| "json_value (JString s) = Some (JsonString s)"

fun json_object :: "(string \<times> jsval) list \<Rightarrow> (string \<times> json) list" where
  "json_object [] = []"
| "json_object ((k, v) # props) =
     (case json_value v of
        None \<Rightarrow> json_object props
      | Some j \<Rightarrow> (k, j) # json_object props)"

record http_request =
  http_method :: string
  url :: string
  headers :: "(string \<times> string) list"
  data :: "(string \<times> json) list"

text \<open>
  What the page reads from the browser: \<^verbatim>\<open>localStorage.getItem\<close> (\<open>None\<close> is
  \<^verbatim>\<open>null\<close>), and the built-ins \<^verbatim>\<open>parseInt\<close> (\<open>None\<close> is \<^verbatim>\<open>NaN\<close>) and
  \<^verbatim>\<open>String.prototype.trim\<close>, which are not code of the repository and are taken as
  they come.
\<close>

record browser =
  localStorage :: "string \<Rightarrow> string option"
  parseInt :: "string \<Rightarrow> int option"
  trim :: "string \<Rightarrow> string"

text \<open>
  The headers of a request of the axios instance: the configured
  \<^verbatim>\<open>Content-Type\<close>, and the interceptor's \<^verbatim>\<open>Authorization\<close> when a (non-empty)
  token is stored.
\<close>

definition request_headers :: "browser \<Rightarrow> (string \<times> string) list" where
  "request_headers env =
     (''Content-Type'', ''application/json'') #
     (case localStorage env ''token'' of
        None \<Rightarrow> []
      | Some token \<Rightarrow> if token = [] then [] else [(''Authorization'', ''Bearer '' @ token)])"

definition api_post :: "browser \<Rightarrow> string \<Rightarrow> (string \<times> jsval) list \<Rightarrow> http_request" where
  "api_post env path props =
     \<lparr>http_method = ''POST'', url = ''http://localhost:8000/api'' @ path,
      headers = request_headers env, data = json_object props\<rparr>"

text \<open>
  A JavaScript call binds the parameters to the arguments by position: a parameter with
  no argument is \<^verbatim>\<open>undefined\<close>, an argument with no parameter is not bound.
  \<^verbatim>\<open>sendMessage\<close> declares the two parameters \<^verbatim>\<open>content\<close> and \<^verbatim>\<open>farmerId\<close>; it
  is modelled on the list of the arguments of a call.
\<close>

definition arg :: "jsval list \<Rightarrow> nat \<Rightarrow> jsval" where
  "arg args i = (if i < length args then args ! i else JUndefined)"

definition sendMessage :: "browser \<Rightarrow> jsval list \<Rightarrow> http_request" where
  "sendMessage env args =
     (let content = arg args 0; farmerId = arg args 1
      in api_post env ''/chat'' [(''content'', content), (''farmer_id'', farmerId)])"

definition js_number :: "int option \<Rightarrow> jsval" where
  "js_number r = (case r of None \<Rightarrow> JNaN | Some n \<Rightarrow> JNumber n)"

text \<open>\<^verbatim>\<open>imageToSend || undefined\<close>: \<^verbatim>\<open>null\<close> and the empty string are falsy.\<close>

definition or_undefined :: "string option \<Rightarrow> jsval" where
  "or_undefined v =
     (case v of None \<Rightarrow> JUndefined | Some s \<Rightarrow> if s = [] then JUndefined else JString s)"

definition truthy :: "string option \<Rightarrow> bool" where
  "truthy v = (case v of None \<Rightarrow> False | Some s \<Rightarrow> s \<noteq> [])"

text \<open>
  The state of the chat page that \<^verbatim>\<open>handleSend\<close> reads: the input box, the attached
  image (a data URL or \<^verbatim>\<open>null\<close>), the loading flag and \<^verbatim>\<open>i18n.language\<close>.
\<close>

record chat_page =
  inputValue :: string
  selectedImage :: "string option"
  isLoading :: bool
  language :: string

text \<open>
  \<^verbatim>\<open>handleSend\<close>, as far as the request goes: \<open>None\<close> when it returns at its guard
  or throws for a missing farmer id before any request is made, else the request of its
  call \<^verbatim>\<open>chatService.sendMessage(userMsg.text, parseInt(farmerIdStr), imageToSend || undefined, i18n.language)\<close>.
\<close>

definition handleSend :: "browser \<Rightarrow> chat_page \<Rightarrow> http_request option" where
  "handleSend env st =
     (if (trim env (inputValue st) = [] \<and> \<not> truthy (selectedImage st)) \<or> isLoading st then None
      else let userMsg_text = inputValue st;
               imageToSend = selectedImage st;
               farmerIdStr = localStorage env ''farmerId''
           in if \<not> truthy farmerIdStr then None
              else case farmerIdStr of
                     None \<Rightarrow> None
                   | Some idstr \<Rightarrow>
                       Some (sendMessage env
                              [JString userMsg_text, js_number (parseInt env idstr),
                               or_undefined imageToSend, JString (language st)]))"

text \<open>
  \<^verbatim>\<open>initializeChat\<close>, as far as a chat message goes: with a farmer id stored and a
  history that loaded without messages (\<open>Some 0\<close>; \<open>None\<close> is a failed load), the page
  sends the greeting \<^verbatim>\<open>chatService.sendMessage("hello", parseInt(farmerId))\<close>.
\<close>

definition initializeChat :: "browser \<Rightarrow> nat option \<Rightarrow> http_request option" where
  "initializeChat env history =
     (let farmerId = localStorage env ''farmerId''
      in if \<not> truthy farmerId then None
         else case farmerId of
                None \<Rightarrow> None
              | Some idstr \<Rightarrow>
                  (case history of
                     None \<Rightarrow> None
                   | Some n \<Rightarrow>
                       if n > 0 then None
                       else Some (sendMessage env
                                    [JString ''hello'', js_number (parseInt env idstr)])))"

text \<open>The two places of the chat page that send a chat message.\<close>

datatype chat_event = Mount "nat option" | Send chat_page

fun chat_message_request :: "browser \<Rightarrow> chat_event \<Rightarrow> http_request option" where
  "chat_message_request env (Mount history) = initializeChat env history"
| "chat_message_request env (Send st) = handleSend env st"

section \<open>Crop-Stage Evaluator: growing degree days\<close>

text \<open>
  Modelled from the spec: the GDD increment of one day. The Crop-Stage Evaluator (the
  backend's GDD calculator) is not among the source files; this follows the spec's
  formula \<^verbatim>\<open>GDD_day = max(0, (T_max + T_min)/2 - T_base)\<close>. A day is the pair of its
  maximum and minimum temperature; temperatures and degree days are real numbers.
\<close>

definition gdd_day :: "real \<Rightarrow> real \<times> real \<Rightarrow> real" where
  "gdd_day t_base d = (case d of (t_max, t_min) \<Rightarrow> max 0 ((t_max + t_min) / 2 - t_base))"

text \<open>
  Modelled from the spec: the evaluator "sums into \<^verbatim>\<open>accumulated_gdd\<close>" the increments
  of the days since the last checkpoint, starting from the value the crop record holds.
\<close>

fun accumulate_gdd :: "real \<Rightarrow> real \<Rightarrow> (real \<times> real) list \<Rightarrow> real" where
  "accumulate_gdd t_base acc [] = acc"
| "accumulate_gdd t_base acc (d # ds) = accumulate_gdd t_base (acc + gdd_day t_base d) ds"

section \<open>Properties of the crop timeline\<close>

lemma indexOf_from_absent: "x \<notin> set xs \<Longrightarrow> indexOf_from i xs x = -1"
  by (induction xs arbitrary: i) auto

lemma indexOf_from_present: "x \<in> set xs \<Longrightarrow> i \<le> indexOf_from i xs x"
proof (induction xs arbitrary: i)
  case Nil
  then show ?case by simp
next
  case (Cons y ys)
  show ?case
  proof (cases "y = x")
    case True
    then show ?thesis by simp
  next
    case False
    with Cons.prems have "x \<in> set ys" by simp
    then have "i + 1 \<le> indexOf_from (i + 1) ys x" by (rule Cons.IH)
    with False show ?thesis by simp
  qed
qed

lemma toLowerCase_stageOrder: "s \<in> set stageOrder \<Longrightarrow> toLowerCase s = s"
  by (auto simp: stageOrder_def toLowerCase_def lower_char_def upper_letters_def
      lower_letters_def)

lemma getStageStatus_upcoming:
  assumes "toLowerCase currentStage \<notin> set stageOrder" and "stageName \<in> set stageOrder"
  shows "getStageStatus stageName currentStage = ''upcoming''"
proof -
  have cur: "indexOf stageOrder (toLowerCase currentStage) = -1"
    using assms(1) by (simp add: indexOf_def indexOf_from_absent)
  have "0 \<le> indexOf stageOrder stageName"
    using assms(2) unfolding indexOf_def by (rule indexOf_from_present)
  then have "0 \<le> indexOf stageOrder (toLowerCase stageName)"
    using assms(2) by (simp add: toLowerCase_stageOrder)
  with cur show ?thesis by (simp add: getStageStatus_def Let_def)
qed

text \<open>
  Claim C9, as stated, at the current stage \<^verbatim>\<open>'Flowering'\<close>: the string is not in the
  list, yet \<^verbatim>\<open>getStageStatus\<close> lower-cases it before the lookup, finds
  \<^verbatim>\<open>'flowering'\<close> at index 2, and reports the listed stage \<^verbatim>\<open>'germination'\<close> as
  completed, not as upcoming.
\<close>

theorem getStageStatus_capitalised_stage_counterexample:
  "''Flowering'' \<notin> set stageOrder \<and> ''germination'' \<in> set stageOrder \<and>
   getStageStatus ''germination'' ''Flowering'' = ''completed''"
  by (simp add: stageOrder_def getStageStatus_def indexOf_def toLowerCase_def lower_char_def
      upper_letters_def lower_letters_def)

text \<open>
  Claim C9, amended: for every current-stage string whose lower-cased form is not in the
  list \<^verbatim>\<open>['germination', 'vegetative', 'flowering', 'maturity', 'harvest']\<close> (such as
  the \<^verbatim>\<open>'seedling'\<close> the backend reports), \<^verbatim>\<open>getStageStatus\<close> returns
  \<^verbatim>\<open>'upcoming'\<close> for every listed stage name; so the three rows of the timeline whose
  status it computes (vegetative, flowering, harvest) are rendered as upcoming, next to
  the sowing row, whose status is the constant \<^verbatim>\<open>'completed'\<close>.
\<close>

theorem getStageStatus_unlisted_current_stage:
  assumes "toLowerCase currentStage \<notin> set stageOrder"
  shows "(\<forall>stageName \<in> set stageOrder. getStageStatus stageName currentStage = ''upcoming'') \<and>
         stage_statuses (Some currentStage) =
           [''completed'', ''upcoming'', ''upcoming'', ''upcoming'']"
proof -
  have listed: "\<forall>stageName \<in> set stageOrder. getStageStatus stageName currentStage = ''upcoming''"
    using assms by (simp add: getStageStatus_upcoming)
  have "''vegetative'' \<in> set stageOrder" "''flowering'' \<in> set stageOrder"
    "''harvest'' \<in> set stageOrder"
    by (simp_all add: stageOrder_def)
  with listed have "getStageStatus ''vegetative'' currentStage = ''upcoming''"
    "getStageStatus ''flowering'' currentStage = ''upcoming''"
    "getStageStatus ''harvest'' currentStage = ''upcoming''"
    by blast+
  then have "stage_statuses (Some currentStage) =
      [''completed'', ''upcoming'', ''upcoming'', ''upcoming'']"
    by (simp add: stage_statuses_def)
  with listed show ?thesis by blast
qed

text \<open>
  The theorem at the stage \<^verbatim>\<open>'seedling'\<close> of the documented \<^verbatim>\<open>/crop-status\<close>
  response.
\<close>

theorem getStageStatus_unlisted_current_stage_witness:
  "toLowerCase ''seedling'' \<notin> set stageOrder \<and>
   getStageStatus ''germination'' ''seedling'' = ''upcoming'' \<and>
   getStageStatus ''vegetative'' ''seedling'' = ''upcoming'' \<and>
   getStageStatus ''flowering'' ''seedling'' = ''upcoming'' \<and>
   getStageStatus ''maturity'' ''seedling'' = ''upcoming'' \<and>
   getStageStatus ''harvest'' ''seedling'' = ''upcoming'' \<and>
   stage_statuses (Some ''seedling'') = [''completed'', ''upcoming'', ''upcoming'', ''upcoming'']"
proof -
  have h: "toLowerCase ''seedling'' \<notin> set stageOrder"
    by (simp add: stageOrder_def toLowerCase_def lower_char_def upper_letters_def
        lower_letters_def)
  have "\<forall>stageName \<in> set stageOrder. getStageStatus stageName ''seedling'' = ''upcoming''"
    and "stage_statuses (Some ''seedling'') =
      [''completed'', ''upcoming'', ''upcoming'', ''upcoming'']"
    using getStageStatus_unlisted_current_stage [OF h] by blast+
  then show ?thesis using h by (simp add: stageOrder_def)
qed

section \<open>Properties of the chat request\<close>

lemma sendMessage_data:
  "data (sendMessage env (JString s # js_number r # extra)) =
     [(''content'', JsonString s), (''farmer_id'', the (json_value (js_number r)))]"
  by (cases r) (simp_all add: sendMessage_def api_post_def arg_def js_number_def)

lemma sendMessage_ignores_extra:
  "sendMessage env (a # b # c # extra) = sendMessage env [a, b]"
  by (simp add: sendMessage_def arg_def)

lemma handleSend_Some:
  assumes "handleSend env st = Some req"
  shows "\<exists>idstr. localStorage env ''farmerId'' = Some idstr \<and>
           req = sendMessage env [JString (inputValue st), js_number (parseInt env idstr)]"
  using assms
  by (auto simp: handleSend_def Let_def sendMessage_ignores_extra
      split: if_splits option.splits)

lemma handleSend_other_attachment:
  assumes "handleSend env st = Some req"
  shows "handleSend env (st\<lparr>selectedImage := img, language := lang\<rparr>) = None \<or>
         handleSend env (st\<lparr>selectedImage := img, language := lang\<rparr>) = Some req"
  using assms
  by (auto simp: handleSend_def Let_def sendMessage_ignores_extra
      split: if_splits option.splits)

text \<open>
  Claim C10: every chat message the chat page sends goes out in a request whose body has
  the fields \<^verbatim>\<open>content\<close> and \<^verbatim>\<open>farmer_id\<close> and no other; the image and the
  interface language that \<^verbatim>\<open>handleSend\<close> passes to \<^verbatim>\<open>chatService.sendMessage\<close> are
  dropped: with any other image and language the page sends the very same request
  (method, URL, headers and body), or none.
\<close>

theorem chat_request_only_content_and_farmer_id:
  assumes "chat_message_request env ev = Some req"
  shows "map fst (data req) = [''content'', ''farmer_id''] \<and>
         (\<forall>st img lang. ev = Send st \<longrightarrow>
            handleSend env (st\<lparr>selectedImage := img, language := lang\<rparr>) = None \<or>
            handleSend env (st\<lparr>selectedImage := img, language := lang\<rparr>) = Some req)"
proof (cases ev)
  case (Mount history)
  with assms have "initializeChat env history = Some req" by simp
  then obtain idstr
    where "req = sendMessage env [JString ''hello'', js_number (parseInt env idstr)]"
    by (auto simp: initializeChat_def Let_def split: if_splits option.splits)
  then have "map fst (data req) = [''content'', ''farmer_id'']"
    by (simp add: sendMessage_data)
  with Mount show ?thesis by simp
next
  case (Send st)
  with assms have h: "handleSend env st = Some req" by simp
  then obtain idstr
    where "req = sendMessage env [JString (inputValue st), js_number (parseInt env idstr)]"
    using handleSend_Some by blast
  then have "map fst (data req) = [''content'', ''farmer_id'']"
    by (simp add: sendMessage_data)
  moreover have "\<forall>img lang.
      handleSend env (st\<lparr>selectedImage := img, language := lang\<rparr>) = None \<or>
      handleSend env (st\<lparr>selectedImage := img, language := lang\<rparr>) = Some req"
    using handleSend_other_attachment [OF h] by blast
  ultimately show ?thesis using Send by simp
qed

text \<open>
  The theorem at a message with an attached image, sent with the interface in Hindi: the
  request carries the text and the farmer id; without the image and in English the page
  sends the same request.
\<close>

theorem chat_request_only_content_and_farmer_id_witness:
  "chat_message_request
     \<lparr>localStorage = [''farmerId'' \<mapsto> ''7'', ''token'' \<mapsto> ''t0''],
      parseInt = (\<lambda>s. if s = ''7'' then Some 7 else None),
      trim = (\<lambda>s. s)\<rparr>
     (Send \<lparr>inputValue = ''Is this leaf healthy?'',
            selectedImage = Some ''data:image/png;base64,iVBOR'',
            isLoading = False, language = ''hi''\<rparr>)
   = Some \<lparr>http_method = ''POST'', url = ''http://localhost:8000/api/chat'',
           headers = [(''Content-Type'', ''application/json''),
                      (''Authorization'', ''Bearer t0'')],
           data = [(''content'', JsonString ''Is this leaf healthy?''),
                   (''farmer_id'', JsonNumber 7)]\<rparr> \<and>
   map fst [(''content'', JsonString ''Is this leaf healthy?''), (''farmer_id'', JsonNumber 7)]
     = [''content'', ''farmer_id''] \<and>
   handleSend
     \<lparr>localStorage = [''farmerId'' \<mapsto> ''7'', ''token'' \<mapsto> ''t0''],
      parseInt = (\<lambda>s. if s = ''7'' then Some 7 else None),
      trim = (\<lambda>s. s)\<rparr>
     \<lparr>inputValue = ''Is this leaf healthy?'', selectedImage = None,
      isLoading = False, language = ''en''\<rparr>
   = Some \<lparr>http_method = ''POST'', url = ''http://localhost:8000/api/chat'',
           headers = [(''Content-Type'', ''application/json''),
                      (''Authorization'', ''Bearer t0'')],
           data = [(''content'', JsonString ''Is this leaf healthy?''),
                   (''farmer_id'', JsonNumber 7)]\<rparr>"
proof -
  let ?env = "\<lparr>localStorage = [''farmerId'' \<mapsto> ''7'', ''token'' \<mapsto> ''t0''],
      parseInt = (\<lambda>s. if s = ''7'' then Some 7 else None),
      trim = (\<lambda>s. s)\<rparr>"
  let ?st = "\<lparr>inputValue = ''Is this leaf healthy?'',
      selectedImage = Some ''data:image/png;base64,iVBOR'',
      isLoading = False, language = ''hi''\<rparr>"
  let ?req = "\<lparr>http_method = ''POST'', url = ''http://localhost:8000/api/chat'',
      headers = [(''Content-Type'', ''application/json''), (''Authorization'', ''Bearer t0'')],
      data = [(''content'', JsonString ''Is this leaf healthy?''),
              (''farmer_id'', JsonNumber 7)]\<rparr>"
  have h: "chat_message_request ?env (Send ?st) = Some ?req"
    by (simp add: handleSend_def sendMessage_def api_post_def request_headers_def arg_def
        js_number_def or_undefined_def truthy_def)
  have sent: "handleSend ?env (?st\<lparr>selectedImage := None, language := ''en''\<rparr>) \<noteq> None"
    by (simp add: handleSend_def truthy_def)
  from chat_request_only_content_and_farmer_id [OF h]
  have "map fst (data ?req) = [''content'', ''farmer_id'']"
    and "handleSend ?env (?st\<lparr>selectedImage := None, language := ''en''\<rparr>) = None \<or>
         handleSend ?env (?st\<lparr>selectedImage := None, language := ''en''\<rparr>) = Some ?req"
    by blast+
  moreover from this(2) sent
  have "handleSend ?env (?st\<lparr>selectedImage := None, language := ''en''\<rparr>) = Some ?req"
    by blast
  ultimately show ?thesis using h by simp
qed

section \<open>Properties of the accumulated degree days\<close>

lemma gdd_day_nonneg: "0 \<le> gdd_day t_base d"
  by (cases d) (simp add: gdd_day_def)

lemma accumulate_gdd_ge: "acc \<le> accumulate_gdd t_base acc days"
proof (induction days arbitrary: acc)
  case Nil
  show ?case by simp
next
  case (Cons d ds)
  have "acc \<le> acc + gdd_day t_base d"
    using gdd_day_nonneg [of t_base d] by simp
  also have "\<dots> \<le> accumulate_gdd t_base (acc + gdd_day t_base d) ds"
    by (rule Cons.IH)
  finally show ?case by simp
qed

lemma accumulate_gdd_append:
  "accumulate_gdd t_base acc (days @ later) =
     accumulate_gdd t_base (accumulate_gdd t_base acc days) later"
  by (induction days arbitrary: acc) simp_all

text \<open>
  Claim C1: for every base temperature and every sequence of daily temperatures, a
  further day adds \<open>max 0 ((T_max + T_min) / 2 - T_base)\<close> to the accumulated GDD, so a
  cold day adds nothing; the accumulated GDD never falls as days are added, is never
  below the value it started from, and is never negative when that value is not.
\<close>

theorem accumulated_gdd_clamped_monotone:
  "accumulate_gdd t_base acc (days @ [(t_max, t_min)]) =
     accumulate_gdd t_base acc days + max 0 ((t_max + t_min) / 2 - t_base) \<and>
   accumulate_gdd t_base acc days \<le> accumulate_gdd t_base acc (days @ later) \<and>
   acc \<le> accumulate_gdd t_base acc days \<and>
   (0 \<le> acc \<longrightarrow> 0 \<le> accumulate_gdd t_base acc days)"
proof -
  have step: "accumulate_gdd t_base acc (days @ [(t_max, t_min)]) =
      accumulate_gdd t_base acc days + max 0 ((t_max + t_min) / 2 - t_base)"
    by (simp add: accumulate_gdd_append gdd_day_def)
  have mono: "accumulate_gdd t_base acc days \<le> accumulate_gdd t_base acc (days @ later)"
    by (simp add: accumulate_gdd_append accumulate_gdd_ge)
  have ge: "acc \<le> accumulate_gdd t_base acc days"
    by (rule accumulate_gdd_ge)
  from ge have "0 \<le> acc \<longrightarrow> 0 \<le> accumulate_gdd t_base acc days"
    by simp
  with step mono ge show ?thesis by blast
qed

text \<open>
  The theorem at base temperature 10, from 100 accumulated degree days: a day of 30/26
  adds 18, a cold day of 8/2 adds nothing, a day of 31/25 adds 18 again.
\<close>

theorem accumulated_gdd_clamped_monotone_witness:
  "(0::real) \<le> 100 \<and>
   accumulate_gdd 10 100 ([(30, 26), (8, 2)] @ [(31, 25)]) =
     accumulate_gdd 10 100 [(30, 26), (8, 2)] + 18 \<and>
   accumulate_gdd 10 100 [(30, 26), (8, 2)] = 118 \<and>
   (0::real) \<le> accumulate_gdd 10 100 [(30, 26), (8, 2)]"
  using accumulated_gdd_clamped_monotone [of 10 100 "[(30, 26), (8, 2)]" 31 25 "[(31, 25)]"]
  by (simp add: gdd_day_def)

end
